theory Spec2Isabelle
  imports Main "HOL-Library.Word"
begin

section \<open>Errors\<close>

text \<open>
  Go errors as values.  The two sentinels of \<^verbatim>\<open>storage/store.go\<close> and the two of the
  embedded engine are compared by identity in the source (\<^verbatim>\<open>err == leveldb.ErrNotFound\<close>), so
  each is a constructor of its own.  \<open>Errorf p\<close> is \<^verbatim>\<open>fmt.Errorf\<close> with a finished message,
  \<open>ErrorfW p e\<close> is \<^verbatim>\<open>fmt.Errorf(p + "%w", e)\<close>, which wraps \<open>e\<close>.  \<open>TransportError\<close> is an
  error handed back by the RPC transport (unreachable peer, expired deadline) and
  \<open>MarshalError\<close> one handed back by the JSON encoder.
\<close>

datatype error =
    ErrKeyNotFound
  | ErrInvalidKey
  | leveldb_ErrNotFound
  | leveldb_ErrClosed
  | TransportError string
  | MarshalError string
  | Errorf string
  | ErrorfW string error

fun Error :: "error \<Rightarrow> string" where
  "Error ErrKeyNotFound = ''key not found''"
| "Error ErrInvalidKey = ''invalid key''"
| "Error leveldb_ErrNotFound = ''leveldb: not found''"
| "Error leveldb_ErrClosed = ''leveldb: closed''"
| "Error (TransportError s) = s"
| "Error (MarshalError s) = s"
| "Error (Errorf s) = s"
| "Error (ErrorfW p e) = p @ Error e"

type_synonym bytes = string

section \<open>The embedded engine\<close>

text \<open>
  Modelled from the spec: the embedded ordered key-value engine (goleveldb) is an external
  library, "a black-box durable map" with "LevelDB-class semantics".  It is a finite map
  from keys to values; a read of an absent key fails with \<^verbatim>\<open>leveldb.ErrNotFound\<close>, a delete
  of an absent key is not an error, and once the handle is closed every operation fails
  with \<^verbatim>\<open>leveldb.ErrClosed\<close> and changes nothing.
\<close>

record DB =
  entries :: "string \<rightharpoonup> bytes"
  closed :: bool

definition db_Put :: "DB \<Rightarrow> string \<Rightarrow> bytes \<Rightarrow> error option \<times> DB" where
  "db_Put d k v =
     (if closed d then (Some leveldb_ErrClosed, d)
      else (None, d\<lparr>entries := (entries d)(k \<mapsto> v)\<rparr>))"

definition db_Get :: "DB \<Rightarrow> string \<Rightarrow> error + bytes" where
  "db_Get d k =
     (if closed d then Inl leveldb_ErrClosed
      else (case entries d k of None \<Rightarrow> Inl leveldb_ErrNotFound | Some v \<Rightarrow> Inr v))"

definition db_Delete :: "DB \<Rightarrow> string \<Rightarrow> error option \<times> DB" where
  "db_Delete d k =
     (if closed d then (Some leveldb_ErrClosed, d)
      else (None, d\<lparr>entries := (entries d)(k := None)\<rparr>))"

section \<open>Local engine adapter (storage/leveldb.go)\<close>

record LevelDBStore =
  db :: DB

definition LevelDBStore_makeKey :: "string \<Rightarrow> string \<Rightarrow> string" where
  "LevelDBStore_makeKey collection key = collection @ '':'' @ key"

definition LevelDBStore_PutDirect :: "LevelDBStore \<Rightarrow> string \<Rightarrow> string \<Rightarrow> bytes \<Rightarrow> error option \<times> LevelDBStore" where
  "LevelDBStore_PutDirect s collection key val =
     (if key = [] then (Some ErrInvalidKey, s)
      else (case db_Put (db s) (LevelDBStore_makeKey collection key) val of
              (err, d) \<Rightarrow> (err, s\<lparr>db := d\<rparr>)))"

definition LevelDBStore_DeleteDirect :: "LevelDBStore \<Rightarrow> string \<Rightarrow> string \<Rightarrow> error option \<times> LevelDBStore" where
  "LevelDBStore_DeleteDirect s collection key =
     (if key = [] then (Some ErrInvalidKey, s)
      else (case db_Delete (db s) (LevelDBStore_makeKey collection key) of
              (err, d) \<Rightarrow> (err, s\<lparr>db := d\<rparr>)))"

text \<open>
  \<^verbatim>\<open>Put\<close> and \<^verbatim>\<open>Get\<close> pass values through \<^verbatim>\<open>json.Marshal\<close> and \<^verbatim>\<open>json.Unmarshal\<close> of the Go
  standard library.  The two are parameters \<open>marshal\<close> and \<open>unmarshal\<close> of the model, each
  free to fail.
\<close>

definition LevelDBStore_Put ::
  "('v \<Rightarrow> error + bytes) \<Rightarrow> LevelDBStore \<Rightarrow> string \<Rightarrow> string \<Rightarrow> 'v \<Rightarrow> error option \<times> LevelDBStore" where
  "LevelDBStore_Put marshal s collection key val =
     (if key = [] then (Some ErrInvalidKey, s)
      else (case marshal val of
              Inl err \<Rightarrow> (Some (ErrorfW ''failed to serialize value: '' err), s)
            | Inr data \<Rightarrow>
                (case db_Put (db s) (LevelDBStore_makeKey collection key) data of
                   (Some err, d) \<Rightarrow> (Some (ErrorfW ''failed to store value: '' err), s\<lparr>db := d\<rparr>)
                 | (None, d) \<Rightarrow> (None, s\<lparr>db := d\<rparr>))))"

definition LevelDBStore_Get ::
  "(bytes \<Rightarrow> error + 'v) \<Rightarrow> LevelDBStore \<Rightarrow> string \<Rightarrow> string \<Rightarrow> error + 'v" where
  "LevelDBStore_Get unmarshal s collection key =
     (if key = [] then Inl ErrInvalidKey
      else (case db_Get (db s) (LevelDBStore_makeKey collection key) of
              Inl err \<Rightarrow>
                (if err = leveldb_ErrNotFound then Inl ErrKeyNotFound
                 else Inl (ErrorfW ''failed to retrieve value: '' err))
            | Inr data \<Rightarrow>
                (case unmarshal data of
                   Inl err \<Rightarrow> Inl (ErrorfW ''failed to deserialize value: '' err)
                 | Inr v \<Rightarrow> Inr v)))"

definition LevelDBStore_Delete :: "LevelDBStore \<Rightarrow> string \<Rightarrow> string \<Rightarrow> error option \<times> LevelDBStore" where
  "LevelDBStore_Delete s collection key =
     (if key = [] then (Some ErrInvalidKey, s)
      else (case db_Get (db s) (LevelDBStore_makeKey collection key) of
              Inl err \<Rightarrow>
                (if err = leveldb_ErrNotFound then (Some ErrKeyNotFound, s)
                 else (Some (ErrorfW ''failed to check key existence: '' err), s))
            | Inr data \<Rightarrow>
                (case db_Delete (db s) (LevelDBStore_makeKey collection key) of
                   (Some err, d) \<Rightarrow> (Some (ErrorfW ''failed to delete key: '' err), s\<lparr>db := d\<rparr>)
                 | (None, d) \<Rightarrow> (None, s\<lparr>db := d\<rparr>))))"

section \<open>Wire messages\<close>

text \<open>
  Modelled from the spec: the generated protocol package is not part of the sources.  The
  operation kind is the wire enum \<open>{PUT=0, DELETE=1}\<close>, a 32-bit integer that can carry any
  other number as well; the messages carry the fields of the table of the wire protocol.
\<close>

type_synonym OperationType = "32 word"

definition OperationType_PUT :: OperationType where
  "OperationType_PUT = 0"

definition OperationType_DELETE :: OperationType where
  "OperationType_DELETE = 1"

record PrepareRequest =
  TransactionId :: string
  ReqOperation :: OperationType
  ReqCollection :: string
  ReqKey :: string
  ReqValue :: bytes
  Sequence :: "64 word"

record PrepareResponse =
  Ready :: bool

record CommitResponse =
  Success :: bool
  ErrorText :: string

record AbortResponse =
  AbortSuccess :: bool

section \<open>Replication participant (replication server)\<close>

record PendingTransaction =
  Operation :: OperationType
  Collection :: string
  Key :: string
  Value :: bytes

text \<open>
  The participant: its storage backend (the node's \<open>LevelDBStore\<close>), the sequence field
  the struct declares, and the pending map.  Each handler runs under the server's mutex,
  so it is one atomic step from a server state to a response and the next state.
\<close>

record Server =
  storage :: LevelDBStore
  server_seq :: "64 word"
  pending :: "string \<rightharpoonup> PendingTransaction"

definition NewServer :: "LevelDBStore \<Rightarrow> Server" where
  "NewServer st = \<lparr>storage = st, server_seq = 0, pending = Map.empty\<rparr>"

definition Server_Prepare :: "Server \<Rightarrow> PrepareRequest \<Rightarrow> PrepareResponse \<times> Server" where
  "Server_Prepare s req =
     (if pending s (TransactionId req) \<noteq> None then (\<lparr>Ready = True\<rparr>, s)
      else (\<lparr>Ready = True\<rparr>,
            s\<lparr>pending := (pending s)(TransactionId req \<mapsto>
                 \<lparr>Operation = ReqOperation req, Collection = ReqCollection req,
                  Key = ReqKey req, Value = ReqValue req\<rparr>)\<rparr>))"

text \<open>
  The \<^verbatim>\<open>switch\<close> of \<^verbatim>\<open>Commit\<close>: PUT and DELETE call the backend, any other operation
  kind matches no case and leaves \<^verbatim>\<open>err\<close> nil.
\<close>

definition apply_txn :: "LevelDBStore \<Rightarrow> PendingTransaction \<Rightarrow> error option \<times> LevelDBStore" where
  "apply_txn st txn =
     (if Operation txn = OperationType_PUT then LevelDBStore_PutDirect st (Collection txn) (Key txn) (Value txn)
      else if Operation txn = OperationType_DELETE then LevelDBStore_DeleteDirect st (Collection txn) (Key txn)
      else (None, st))"

definition Server_Commit :: "Server \<Rightarrow> string \<Rightarrow> CommitResponse \<times> Server" where
  "Server_Commit s tid =
     (case pending s tid of
        None \<Rightarrow> (\<lparr>Success = False, ErrorText = ''transaction not found''\<rparr>, s)
      | Some txn \<Rightarrow>
          (case apply_txn (storage s) txn of
             (Some err, st) \<Rightarrow> (\<lparr>Success = False, ErrorText = Error err\<rparr>, s\<lparr>storage := st\<rparr>)
           | (None, st) \<Rightarrow>
               (\<lparr>Success = True, ErrorText = []\<rparr>,
                s\<lparr>storage := st, pending := (pending s)(tid := None)\<rparr>)))"

definition Server_Abort :: "Server \<Rightarrow> string \<Rightarrow> AbortResponse \<times> Server" where
  "Server_Abort s tid = (\<lparr>AbortSuccess = True\<rparr>, s\<lparr>pending := (pending s)(tid := None)\<rparr>)"

section \<open>Replication coordinator (replication/client.go)\<close>

text \<open>
  The generated stub \<^verbatim>\<open>pb.ReplicationServiceClient\<close> that a \<^verbatim>\<open>Client\<close> holds is an interface
  with one method per RPC.  A call either fails in the transport (\<open>Inl\<close>) or brings back the
  participant's response (\<open>Inr\<close>); nothing is assumed about which participant answers or how.
\<close>

record ReplicationServiceClient =
  rpc_Prepare :: "PrepareRequest \<Rightarrow> error + PrepareResponse"
  rpc_Commit :: "string \<Rightarrow> error + CommitResponse"
  rpc_Abort :: "string \<Rightarrow> error + AbortResponse"

record Client =
  addr :: string
  client :: ReplicationServiceClient

text \<open>
  The RPCs a coordinator sends are its only effect on other nodes.  The model records each
  one, with the address of the client it went through, in the order of \<^verbatim>\<open>m.clients\<close>.
\<close>

datatype rpc =
    SentPrepare string PrepareRequest
  | SentCommit string string
  | SentAbort string string

definition Client_Prepare :: "Client \<Rightarrow> PrepareRequest \<Rightarrow> bool \<times> error option" where
  "Client_Prepare c req =
     (case rpc_Prepare (client c) req of
        Inl err \<Rightarrow> (False, Some (ErrorfW (''prepare to '' @ addr c @ '' failed: '') err))
      | Inr resp \<Rightarrow> (Ready resp, None))"

definition Client_Commit :: "Client \<Rightarrow> string \<Rightarrow> error option" where
  "Client_Commit c txnID =
     (case rpc_Commit (client c) txnID of
        Inl err \<Rightarrow> Some (ErrorfW (''commit to '' @ addr c @ '' failed: '') err)
      | Inr resp \<Rightarrow>
          (if \<not> Success resp
           then Some (Errorf (''commit to '' @ addr c @ '' rejected: '' @ ErrorText resp))
           else None))"

definition Client_Abort :: "Client \<Rightarrow> string \<Rightarrow> error option" where
  "Client_Abort c txnID =
     (case rpc_Abort (client c) txnID of
        Inl err \<Rightarrow> Some (ErrorfW (''abort to '' @ addr c @ '' failed: '') err)
      | Inr resp \<Rightarrow> None)"

record Manager =
  clients :: "Client list"
  seq :: "64 word"
  txnID :: "64 word"

text \<open>
  \<^verbatim>\<open>NewManager\<close> dials every non-empty address and keeps the clients whose dial succeeded;
  \<open>dial\<close> is \<^verbatim>\<open>NewClient\<close>, which depends on the network.
\<close>

fun connect_all :: "(string \<Rightarrow> error + Client) \<Rightarrow> string list \<Rightarrow> Client list \<Rightarrow> Client list" where
  "connect_all dial [] cs = cs"
| "connect_all dial (a # as) cs =
     (if a = [] then connect_all dial as cs
      else (case dial a of
              Inl err \<Rightarrow> connect_all dial as cs
            | Inr c \<Rightarrow> connect_all dial as (cs @ [c])))"

definition NewManager :: "(string \<Rightarrow> error + Client) \<Rightarrow> string list \<Rightarrow> Manager" where
  "NewManager dial slaveAddrs = \<lparr>clients = connect_all dial slaveAddrs [], seq = 0, txnID = 0\<rparr>"

text \<open>The verb \<^verbatim>\<open>%d\<close> of \<^verbatim>\<open>fmt.Sprintf\<close>: decimal digits, with a sign for a negative number.\<close>

fun fmt_nat :: "nat \<Rightarrow> string" where
  "fmt_nat n = (if n < 10 then [char_of (48 + n)] else fmt_nat (n div 10) @ [char_of (48 + n mod 10)])"

declare fmt_nat.simps [simp del]

definition fmt_d :: "int \<Rightarrow> string" where
  "fmt_d i = (if i < 0 then CHR ''-'' # fmt_nat (nat (- i)) else fmt_nat (nat i))"

text \<open>
  \<open>now\<close> is the reading of \<^verbatim>\<open>time.Now().UnixNano()\<close>.  The atomic add and the critical
  section of \<^verbatim>\<open>nextSeq\<close> are each one step on the manager; both counters are unsigned
  64-bit integers, whose increment wraps.
\<close>

definition generateTxnID :: "int \<Rightarrow> Manager \<Rightarrow> string \<times> Manager" where
  "generateTxnID now m =
     (let id = txnID m + 1
      in (''txn-'' @ fmt_d now @ ''-'' @ fmt_d (uint id), m\<lparr>txnID := id\<rparr>))"

definition nextSeq :: "Manager \<Rightarrow> 64 word \<times> Manager" where
  "nextSeq m = (seq m + 1, m\<lparr>seq := seq m + 1\<rparr>)"

text \<open>
  The collecting loop of phase 1 over the results, with its three variables
  \<^verbatim>\<open>allReady\<close>, \<^verbatim>\<open>preparedClients\<close> and \<^verbatim>\<open>prepareErrors\<close> as the accumulator.
\<close>

fun collect_prepare ::
  "(Client \<times> bool \<times> error option) list \<Rightarrow> bool \<times> Client list \<times> error list
     \<Rightarrow> bool \<times> Client list \<times> error list" where
  "collect_prepare [] acc = acc"
| "collect_prepare ((c, ready, err) # rs) (allReady, preparedClients, prepareErrors) =
     (case err of
        Some e \<Rightarrow> collect_prepare rs (False, preparedClients, prepareErrors @ [e])
      | None \<Rightarrow>
          (if \<not> ready then collect_prepare rs (False, preparedClients, prepareErrors)
           else collect_prepare rs (allReady, preparedClients @ [c], prepareErrors)))"

text \<open>The collecting loop of the commit phase: the errors, in the order received.\<close>

fun collect_commit :: "error option list \<Rightarrow> error list \<Rightarrow> error list" where
  "collect_commit [] commitErrors = commitErrors"
| "collect_commit (None # rs) commitErrors = collect_commit rs commitErrors"
| "collect_commit (Some e # rs) commitErrors = collect_commit rs (commitErrors @ [e])"

text \<open>\<^verbatim>\<open>abortAll\<close> calls \<^verbatim>\<open>Abort\<close> on each client it is given and only logs the outcome.\<close>

definition abortAll :: "string \<Rightarrow> Client list \<Rightarrow> rpc list" where
  "abortAll txn cs = map (\<lambda>c. SentAbort (addr c) txn) cs"

text \<open>
  \<^verbatim>\<open>replicate2PC\<close>.  The goroutines of a phase run in parallel and their results arrive on
  a channel in any order; the model runs them in the order of \<^verbatim>\<open>m.clients\<close>.  The order
  decides only which of several errors is \<^verbatim>\<open>prepareErrors[0]\<close> or \<^verbatim>\<open>commitErrors[0]\<close>.  The
  result is the returned error, the manager with its counters advanced, and the RPCs sent.
\<close>

definition replicate2PC ::
  "int \<Rightarrow> Manager \<Rightarrow> OperationType \<Rightarrow> string \<Rightarrow> string \<Rightarrow> bytes
     \<Rightarrow> error option \<times> Manager \<times> rpc list" where
  "replicate2PC now m op collection key val =
     (if length (clients m) = 0 then (None, m, [])
      else
        (case generateTxnID now m of (txn, m1) \<Rightarrow>
         (case nextSeq m1 of (sq, m2) \<Rightarrow>
           (let req = \<lparr>TransactionId = txn, ReqOperation = op, ReqCollection = collection,
                       ReqKey = key, ReqValue = val, Sequence = sq\<rparr>;
                prepares = map (\<lambda>c. SentPrepare (addr c) req) (clients m2);
                results = map (\<lambda>c. (c, Client_Prepare c req)) (clients m2)
            in (case collect_prepare results (True, [], []) of
                  (allReady, preparedClients, prepareErrors) \<Rightarrow>
                    (if \<not> allReady then
                       (Some (if length prepareErrors > 0
                              then Errorf (''2PC prepare failed: '' @ Error (hd prepareErrors))
                              else Errorf ''2PC prepare rejected by one or more slaves''),
                        m2, prepares @ abortAll txn preparedClients)
                     else
                       (let commits = map (\<lambda>c. SentCommit (addr c) txn) (clients m2);
                            commitErrors =
                              collect_commit (map (\<lambda>c. Client_Commit c txn) (clients m2)) []
                        in (if length commitErrors > 0
                            then (Some (Errorf (''2PC commit partially failed: '' @
                                                 Error (hd commitErrors))),
                                  m2, prepares @ commits)
                            else (None, m2, prepares @ commits)))))))))"

definition ReplicatePut ::
  "int \<Rightarrow> Manager \<Rightarrow> string \<Rightarrow> string \<Rightarrow> bytes \<Rightarrow> error option \<times> Manager \<times> rpc list" where
  "ReplicatePut now m collection key val = replicate2PC now m OperationType_PUT collection key val"

definition ReplicateDelete ::
  "int \<Rightarrow> Manager \<Rightarrow> string \<Rightarrow> string \<Rightarrow> error option \<times> Manager \<times> rpc list" where
  "ReplicateDelete now m collection key = replicate2PC now m OperationType_DELETE collection key []"

definition SlaveCount :: "Manager \<Rightarrow> nat" where
  "SlaveCount m = length (clients m)"

section \<open>Configuration (config package)\<close>

type_synonym Role = string

definition RoleMaster :: Role where
  "RoleMaster = ''master''"

definition RoleSlave :: Role where
  "RoleSlave = ''slave''"

record Config =
  Port :: string
  DatabasePath :: string
  AppName :: string
  Version :: string
  GitCommit :: string
  BuildTime :: string
  NodeID :: string
  Role :: Role
  GRPCPort :: string
  MasterAddr :: string
  SlaveAddrs :: "string list"

definition IsMaster :: "Config \<Rightarrow> bool" where
  "IsMaster c = (Role c = RoleMaster)"

definition IsSlave :: "Config \<Rightarrow> bool" where
  "IsSlave c = (Role c = RoleSlave)"

section \<open>Replicated store\<close>

text \<open>
  The store wrapper holds the local store, the configuration and the manager, which is
  \<^verbatim>\<open>nil\<close> on a node that is not the master.  A call returns its error, the store after the
  call and the RPCs the manager sent during it.
\<close>

record ReplicatedStore =
  store :: LevelDBStore
  config :: Config
  manager :: "Manager option"

definition ReplicatedStore_Put ::
  "('v \<Rightarrow> error + bytes) \<Rightarrow> int \<Rightarrow> ReplicatedStore \<Rightarrow> string \<Rightarrow> string \<Rightarrow> 'v
     \<Rightarrow> error option \<times> ReplicatedStore \<times> rpc list" where
  "ReplicatedStore_Put marshal now s collection key val =
     (if IsSlave (config s)
      then (Some (Errorf ''writes not allowed on slave nodes, send request to master''), s, [])
      else
        (case marshal val of
           Inl err \<Rightarrow> (Some (ErrorfW ''failed to serialize value: '' err), s, [])
         | Inr data \<Rightarrow>
             (case (case manager s of
                      None \<Rightarrow> (None, None, [])
                    | Some m \<Rightarrow>
                        (if SlaveCount m > 0
                         then (case ReplicatePut now m collection key data of
                                 (err, m', sent) \<Rightarrow> (err, Some m', sent))
                         else (None, Some m, []))) of
                (Some err, mo, sent) \<Rightarrow>
                  (Some (ErrorfW ''replication failed: '' err), s\<lparr>manager := mo\<rparr>, sent)
              | (None, mo, sent) \<Rightarrow>
                  (case LevelDBStore_Put marshal (store s) collection key val of
                     (Some err, st) \<Rightarrow>
                       (Some (ErrorfW
                          ''local write failed after replication (inconsistency possible): '' err),
                        s\<lparr>store := st, manager := mo\<rparr>, sent)
                   | (None, st) \<Rightarrow> (None, s\<lparr>store := st, manager := mo\<rparr>, sent)))))"

definition ReplicatedStore_Get ::
  "(bytes \<Rightarrow> error + 'v) \<Rightarrow> ReplicatedStore \<Rightarrow> string \<Rightarrow> string \<Rightarrow> error + 'v" where
  "ReplicatedStore_Get unmarshal s collection key = LevelDBStore_Get unmarshal (store s) collection key"

definition ReplicatedStore_Delete ::
  "(bytes \<Rightarrow> error + 'v) \<Rightarrow> int \<Rightarrow> ReplicatedStore \<Rightarrow> string \<Rightarrow> string
     \<Rightarrow> error option \<times> ReplicatedStore \<times> rpc list" where
  "ReplicatedStore_Delete unmarshal now s collection key =
     (if IsSlave (config s)
      then (Some (Errorf ''deletes not allowed on slave nodes, send request to master''), s, [])
      else
        (case LevelDBStore_Get unmarshal (store s) collection key of
           Inl err \<Rightarrow> (Some err, s, [])
         | Inr v \<Rightarrow>
             (case (case manager s of
                      None \<Rightarrow> (None, None, [])
                    | Some m \<Rightarrow>
                        (if SlaveCount m > 0
                         then (case ReplicateDelete now m collection key of
                                 (err, m', sent) \<Rightarrow> (err, Some m', sent))
                         else (None, Some m, []))) of
                (Some err, mo, sent) \<Rightarrow>
                  (Some (ErrorfW ''replication failed: '' err), s\<lparr>manager := mo\<rparr>, sent)
              | (None, mo, sent) \<Rightarrow>
                  (case LevelDBStore_Delete (store s) collection key of
                     (Some err, st) \<Rightarrow>
                       (Some (ErrorfW
                          ''local delete failed after replication (inconsistency possible): '' err),
                        s\<lparr>store := st, manager := mo\<rparr>, sent)
                   | (None, st) \<Rightarrow> (None, s\<lparr>store := st, manager := mo\<rparr>, sent)))))"

section \<open>Outcomes of a round, as the coordinator sees them\<close>

text \<open>
  A participant is ready when its prepare RPC came back without a transport error and with
  \<open>ready = true\<close>; its commit succeeded when the commit RPC came back without a transport
  error and with \<open>success = true\<close>.
\<close>

definition responded_ready :: "PrepareRequest \<Rightarrow> Client \<Rightarrow> bool" where
  "responded_ready req c =
     (case rpc_Prepare (client c) req of Inl err \<Rightarrow> False | Inr resp \<Rightarrow> Ready resp)"

definition commit_succeeded :: "string \<Rightarrow> Client \<Rightarrow> bool" where
  "commit_succeeded txn c =
     (case rpc_Commit (client c) txn of Inl err \<Rightarrow> False | Inr resp \<Rightarrow> Success resp)"

text \<open>The request that a call of \<open>replicate2PC\<close> on manager \<open>m\<close> at time \<open>now\<close> puts on the wire.\<close>

definition prepare_request ::
  "int \<Rightarrow> Manager \<Rightarrow> OperationType \<Rightarrow> string \<Rightarrow> string \<Rightarrow> bytes \<Rightarrow> PrepareRequest" where
  "prepare_request now m op collection key val =
     \<lparr>TransactionId = fst (generateTxnID now m), ReqOperation = op, ReqCollection = collection,
      ReqKey = key, ReqValue = val, Sequence = fst (nextSeq m)\<rparr>"

text \<open>A round in which every participant responded ready, and one in which every commit succeeded.\<close>

definition round_prepared ::
  "int \<Rightarrow> Manager \<Rightarrow> OperationType \<Rightarrow> string \<Rightarrow> string \<Rightarrow> bytes \<Rightarrow> bool" where
  "round_prepared now m op collection key val =
     list_all (responded_ready (prepare_request now m op collection key val)) (clients m)"

definition round_committed ::
  "int \<Rightarrow> Manager \<Rightarrow> OperationType \<Rightarrow> string \<Rightarrow> string \<Rightarrow> bytes \<Rightarrow> bool" where
  "round_committed now m op collection key val =
     list_all (commit_succeeded (TransactionId (prepare_request now m op collection key val)))
       (clients m)"

section \<open>Calls in a row\<close>

text \<open>
  \<open>nextSeq_times n\<close> is the list of numbers that \<open>n\<close> calls of \<open>nextSeq\<close> in a row hand out;
  the mutex makes any callers take their numbers one after the other.  \<open>run_replicate\<close> runs
  \<open>replicate2PC\<close> for each call of a list in turn and gives the RPCs of each call, and
  \<open>wire_seqs\<close> reads the sequence numbers off the Prepare requests among them.
\<close>

fun nextSeq_times :: "nat \<Rightarrow> Manager \<Rightarrow> 64 word list" where
  "nextSeq_times 0 m = []"
| "nextSeq_times (Suc n) m = (case nextSeq m of (s, m') \<Rightarrow> s # nextSeq_times n m')"

fun run_replicate ::
  "Manager \<Rightarrow> (int \<times> OperationType \<times> string \<times> string \<times> bytes) list \<Rightarrow> rpc list list" where
  "run_replicate m [] = []"
| "run_replicate m ((now, op, collection, key, val) # calls) =
     (case replicate2PC now m op collection key val of
        (err, m', sent) \<Rightarrow> sent # run_replicate m' calls)"

fun wire_seqs :: "rpc list \<Rightarrow> 64 word list" where
  "wire_seqs [] = []"
| "wire_seqs (SentPrepare a req # rs) = Sequence req # wire_seqs rs"
| "wire_seqs (SentCommit a t # rs) = wire_seqs rs"
| "wire_seqs (SentAbort a t # rs) = wire_seqs rs"

section \<open>Concrete nodes\<close>

definition ex_store :: LevelDBStore where
  "ex_store = \<lparr>db = \<lparr>entries = Map.empty, closed = False\<rparr>\<rparr>"

definition ex_req_put :: PrepareRequest where
  "ex_req_put = \<lparr>TransactionId = ''txn-1-1'', ReqOperation = OperationType_PUT,
     ReqCollection = ''default'', ReqKey = ''a'', ReqValue = ''1'', Sequence = 5\<rparr>"

definition ex_req_bad :: PrepareRequest where
  "ex_req_bad = \<lparr>TransactionId = ''txn-1-2'', ReqOperation = 7,
     ReqCollection = ''default'', ReqKey = [], ReqValue = ''2'', Sequence = 3\<rparr>"

definition ex_req_redelivered :: PrepareRequest where
  "ex_req_redelivered = \<lparr>TransactionId = ''txn-1-1'', ReqOperation = OperationType_DELETE,
     ReqCollection = ''other'', ReqKey = ''b'', ReqValue = [], Sequence = 9\<rparr>"

definition ex_server :: Server where
  "ex_server = NewServer ex_store"

definition ex_staged :: Server where
  "ex_staged = snd (Server_Prepare ex_server ex_req_put)"

definition ex_staged_bad :: Server where
  "ex_staged_bad = snd (Server_Prepare ex_server (ex_req_bad\<lparr>ReqOperation := OperationType_PUT\<rparr>))"

definition ex_ready_stub :: ReplicationServiceClient where
  "ex_ready_stub =
     \<lparr>rpc_Prepare = (\<lambda>req. Inr \<lparr>Ready = True\<rparr>),
      rpc_Commit = (\<lambda>t. Inr \<lparr>Success = True, ErrorText = []\<rparr>),
      rpc_Abort = (\<lambda>t. Inr \<lparr>AbortSuccess = True\<rparr>)\<rparr>"

definition ex_refusing_stub :: ReplicationServiceClient where
  "ex_refusing_stub =
     \<lparr>rpc_Prepare = (\<lambda>req. Inr \<lparr>Ready = False\<rparr>),
      rpc_Commit = (\<lambda>t. Inr \<lparr>Success = False, ErrorText = ''transaction not found''\<rparr>),
      rpc_Abort = (\<lambda>t. Inr \<lparr>AbortSuccess = True\<rparr>)\<rparr>"

definition ex_down_stub :: ReplicationServiceClient where
  "ex_down_stub =
     \<lparr>rpc_Prepare = (\<lambda>req. Inl (TransportError ''connection refused'')),
      rpc_Commit = (\<lambda>t. Inl (TransportError ''connection refused'')),
      rpc_Abort = (\<lambda>t. Inl (TransportError ''connection refused''))\<rparr>"

definition ex_forgetful_stub :: ReplicationServiceClient where
  "ex_forgetful_stub =
     \<lparr>rpc_Prepare = (\<lambda>req. Inr \<lparr>Ready = True\<rparr>),
      rpc_Commit = (\<lambda>t. Inr \<lparr>Success = False, ErrorText = ''transaction not found''\<rparr>),
      rpc_Abort = (\<lambda>t. Inr \<lparr>AbortSuccess = True\<rparr>)\<rparr>"

definition ex_manager_refused :: Manager where
  "ex_manager_refused =
     \<lparr>clients = [\<lparr>addr = ''r1:50051'', client = ex_ready_stub\<rparr>,
                 \<lparr>addr = ''r2:50051'', client = ex_refusing_stub\<rparr>,
                 \<lparr>addr = ''r3:50051'', client = ex_down_stub\<rparr>],
      seq = 0, txnID = 0\<rparr>"

definition ex_config_master :: Config where
  "ex_config_master =
     \<lparr>Port = ''3300'', DatabasePath = ''./data'', AppName = ''kiwi'', Version = ''dev'',
      GitCommit = ''unknown'', BuildTime = ''unknown'', NodeID = ''node-1'', Role = RoleMaster,
      GRPCPort = ''50051'', MasterAddr = [], SlaveAddrs = [''r1:50051'', ''r2:50051'']\<rparr>"

definition ex_config_slave :: Config where
  "ex_config_slave =
     \<lparr>Port = ''3301'', DatabasePath = ''./data'', AppName = ''kiwi'', Version = ''dev'',
      GitCommit = ''unknown'', BuildTime = ''unknown'', NodeID = ''node-2'', Role = RoleSlave,
      GRPCPort = ''50051'', MasterAddr = ''m:50051'', SlaveAddrs = []\<rparr>"

definition ex_store_a :: LevelDBStore where
  "ex_store_a = \<lparr>db = \<lparr>entries = [''default:a'' \<mapsto> ''1''], closed = False\<rparr>\<rparr>"

definition ex_manager_partial :: Manager where
  "ex_manager_partial =
     \<lparr>clients = [\<lparr>addr = ''r1:50051'', client = ex_ready_stub\<rparr>,
                 \<lparr>addr = ''r2:50051'', client = ex_forgetful_stub\<rparr>],
      seq = 0, txnID = 0\<rparr>"

definition ex_master_partial :: ReplicatedStore where
  "ex_master_partial = \<lparr>store = ex_store_a, config = ex_config_master, manager = Some ex_manager_partial\<rparr>"

definition ex_replica :: ReplicatedStore where
  "ex_replica = \<lparr>store = ex_store_a, config = ex_config_slave, manager = None\<rparr>"

definition ex_marshal :: "string \<Rightarrow> error + bytes" where
  "ex_marshal v = Inr v"

definition ex_unmarshal :: "bytes \<Rightarrow> error + string" where
  "ex_unmarshal b = Inr b"

definition ex_manager_wrapping :: Manager where
  "ex_manager_wrapping =
     \<lparr>clients = [\<lparr>addr = ''r1:50051'', client = ex_ready_stub\<rparr>],
      seq = 0xFFFFFFFFFFFFFFFE, txnID = 0xFFFFFFFFFFFFFFFE\<rparr>"

definition ex_manager_alone :: Manager where
  "ex_manager_alone = NewManager (\<lambda>a. Inl (TransportError ''connection refused'')) [''r1:50051'']"

definition ex_calls :: "(int \<times> OperationType \<times> string \<times> string \<times> bytes) list" where
  "ex_calls = [(1, OperationType_PUT, ''default'', ''a'', ''1''),
               (2, OperationType_DELETE, ''default'', ''a'', [])]"

section \<open>The participant\<close>

lemma ex_staged_pending:
  "pending ex_staged = [''txn-1-1'' \<mapsto>
     \<lparr>Operation = OperationType_PUT, Collection = ''default'', Key = ''a'', Value = ''1''\<rparr>]"
  by (simp add: ex_staged_def ex_server_def NewServer_def Server_Prepare_def ex_req_put_def)

lemma ex_staged_storage: "storage ex_staged = ex_store"
  by (simp add: ex_staged_def ex_server_def NewServer_def Server_Prepare_def)

lemma ex_staged_bad_pending:
  "pending ex_staged_bad = [''txn-1-2'' \<mapsto>
     \<lparr>Operation = OperationType_PUT, Collection = ''default'', Key = [], Value = ''2''\<rparr>]"
  by (simp add: ex_staged_bad_def ex_server_def NewServer_def Server_Prepare_def ex_req_bad_def)

lemma ex_staged_bad_storage: "storage ex_staged_bad = ex_store"
  by (simp add: ex_staged_bad_def ex_server_def NewServer_def Server_Prepare_def)

lemma Server_Prepare_keeps:
  "pending s t = Some e \<Longrightarrow> pending (snd (Server_Prepare s r)) t = Some e"
  by (auto simp: Server_Prepare_def)

lemma foldl_Prepare_keeps:
  "pending s t = Some e \<Longrightarrow> pending (foldl (\<lambda>s r. snd (Server_Prepare s r)) s reqs) t = Some e"
proof (induction reqs arbitrary: s)
  case Nil
  then show ?case by simp
next
  case (Cons r reqs)
  from Cons.prems have "pending (snd (Server_Prepare s r)) t = Some e"
    by (rule Server_Prepare_keeps)
  then show ?case using Cons.IH by simp
qed

text \<open>
  C1, as the code has it.  A Prepare whose transaction id is not staged is staged and answered
  with \<open>ready = true\<close>, whatever its key, operation kind and sequence number: the handler
  validates nothing, touches no other entry and does not touch the storage.
\<close>

theorem Prepare_always_stages:
  "pending s (TransactionId req) = None \<Longrightarrow>
     Ready (fst (Server_Prepare s req)) \<and>
     pending (snd (Server_Prepare s req)) (TransactionId req) =
       Some \<lparr>Operation = ReqOperation req, Collection = ReqCollection req,
             Key = ReqKey req, Value = ReqValue req\<rparr> \<and>
     (\<forall>u. u \<noteq> TransactionId req \<longrightarrow> pending (snd (Server_Prepare s req)) u = pending s u) \<and>
     storage (snd (Server_Prepare s req)) = storage s"
  by (simp add: Server_Prepare_def)

theorem Prepare_always_stages_witness:
  "pending ex_staged (TransactionId ex_req_bad) = None \<and>
   Ready (fst (Server_Prepare ex_staged ex_req_bad)) \<and>
   pending (snd (Server_Prepare ex_staged ex_req_bad)) ''txn-1-2'' =
     Some \<lparr>Operation = 7, Collection = ''default'', Key = [], Value = ''2''\<rparr> \<and>
   pending (snd (Server_Prepare ex_staged ex_req_bad)) ''txn-1-1'' = pending ex_staged ''txn-1-1''"
proof -
  have h: "pending ex_staged (TransactionId ex_req_bad) = None"
    by (simp add: ex_staged_pending ex_req_bad_def)
  from Prepare_always_stages [OF h] show ?thesis
    using h by (simp add: ex_req_bad_def)
qed

text \<open>
  C1, as the claim states it, fails: on a participant that has staged sequence number 5, a
  Prepare with an empty key, operation kind 7 and sequence number 3 is answered with
  \<open>ready = true\<close> and staged.
\<close>

theorem Prepare_validation_counterexample:
  "pending ex_staged (TransactionId ex_req_bad) = None \<and>
   ReqKey ex_req_bad = [] \<and>
   ReqOperation ex_req_bad \<noteq> OperationType_PUT \<and>
   ReqOperation ex_req_bad \<noteq> OperationType_DELETE \<and>
   pending ex_staged (TransactionId ex_req_put) \<noteq> None \<and>
   Sequence ex_req_bad < Sequence ex_req_put \<and>
   Ready (fst (Server_Prepare ex_staged ex_req_bad)) \<and>
   pending (snd (Server_Prepare ex_staged ex_req_bad)) (TransactionId ex_req_bad) \<noteq> None"
  by (simp add: ex_staged_pending Server_Prepare_def ex_req_put_def
      ex_req_bad_def OperationType_PUT_def OperationType_DELETE_def)

text \<open>
  C2.  Prepare is idempotent.  On a participant where the transaction id is staged, the same
  Prepare is answered with \<open>ready = true\<close> and leaves the participant as it was, however often
  it is delivered: the pending map keeps its keys and the one entry of the id.  A first
  delivery is answered with \<open>ready = true\<close> as well, and the second one changes nothing.
\<close>

theorem Prepare_idempotent:
  "(pending s (TransactionId req) = Some e \<longrightarrow>
      Server_Prepare s req = (\<lparr>Ready = True\<rparr>, s) \<and>
      Server_Prepare (snd (Server_Prepare s req)) req = (\<lparr>Ready = True\<rparr>, s) \<and>
      dom (pending (snd (Server_Prepare s req))) = dom (pending s) \<and>
      pending (snd (Server_Prepare s req)) (TransactionId req) = Some e) \<and>
   (pending s (TransactionId req) = None \<longrightarrow>
      Ready (fst (Server_Prepare s req)) \<and>
      Server_Prepare (snd (Server_Prepare s req)) req =
        (\<lparr>Ready = True\<rparr>, snd (Server_Prepare s req)))"
  by (simp add: Server_Prepare_def)

theorem Prepare_idempotent_witness:
  "pending ex_staged (TransactionId ex_req_put) =
     Some \<lparr>Operation = OperationType_PUT, Collection = ''default'', Key = ''a'', Value = ''1''\<rparr> \<and>
   Server_Prepare ex_staged ex_req_put = (\<lparr>Ready = True\<rparr>, ex_staged) \<and>
   Server_Prepare (snd (Server_Prepare ex_staged ex_req_put)) ex_req_put = (\<lparr>Ready = True\<rparr>, ex_staged) \<and>
   dom (pending (snd (Server_Prepare ex_staged ex_req_put))) = {''txn-1-1''} \<and>
   pending ex_server (TransactionId ex_req_put) = None \<and>
   Ready (fst (Server_Prepare ex_server ex_req_put)) \<and>
   Server_Prepare (snd (Server_Prepare ex_server ex_req_put)) ex_req_put =
     (\<lparr>Ready = True\<rparr>, snd (Server_Prepare ex_server ex_req_put))"
proof -
  have h: "pending ex_staged (TransactionId ex_req_put) =
     Some \<lparr>Operation = OperationType_PUT, Collection = ''default'', Key = ''a'', Value = ''1''\<rparr>"
    by (simp add: ex_staged_pending ex_req_put_def)
  have d: "dom (pending ex_staged) = {''txn-1-1''}"
    by (simp add: ex_staged_pending)
  have n: "pending ex_server (TransactionId ex_req_put) = None"
    by (simp add: ex_server_def NewServer_def)
  from Prepare_idempotent [of ex_staged ex_req_put] Prepare_idempotent [of ex_server ex_req_put]
  show ?thesis using h d n by simp
qed

text \<open>
  C9.  Once a transaction id is staged, no later Prepare alters its staged operation: a
  Prepare that carries the id, with whatever operation, collection, key and value, is
  answered with \<open>ready = true\<close> and leaves the participant as it was, and after any sequence
  of Prepare calls the entry of the id is the one first staged.
\<close>

theorem staged_entry_never_altered:
  "pending s t = Some e \<Longrightarrow>
     (\<forall>req. TransactionId req = t \<longrightarrow> Server_Prepare s req = (\<lparr>Ready = True\<rparr>, s)) \<and>
     pending (foldl (\<lambda>s r. snd (Server_Prepare s r)) s reqs) t = Some e"
  by (simp add: foldl_Prepare_keeps) (simp add: Server_Prepare_def)

theorem staged_entry_never_altered_witness:
  "pending ex_staged ''txn-1-1'' =
     Some \<lparr>Operation = OperationType_PUT, Collection = ''default'', Key = ''a'', Value = ''1''\<rparr> \<and>
   TransactionId ex_req_redelivered = ''txn-1-1'' \<and>
   ReqOperation ex_req_redelivered = OperationType_DELETE \<and>
   Server_Prepare ex_staged ex_req_redelivered = (\<lparr>Ready = True\<rparr>, ex_staged) \<and>
   pending (foldl (\<lambda>s r. snd (Server_Prepare s r)) ex_staged [ex_req_redelivered, ex_req_bad])
     ''txn-1-1'' =
     Some \<lparr>Operation = OperationType_PUT, Collection = ''default'', Key = ''a'', Value = ''1''\<rparr>"
proof -
  have h: "pending ex_staged ''txn-1-1'' =
     Some \<lparr>Operation = OperationType_PUT, Collection = ''default'', Key = ''a'', Value = ''1''\<rparr>"
    by (simp add: ex_staged_pending)
  have t: "TransactionId ex_req_redelivered = ''txn-1-1''"
    by (simp add: ex_req_redelivered_def)
  have o: "ReqOperation ex_req_redelivered = OperationType_DELETE"
    by (simp add: ex_req_redelivered_def)
  note th = staged_entry_never_altered [OF h, of "[ex_req_redelivered, ex_req_bad]"]
  from th t have p: "Server_Prepare ex_staged ex_req_redelivered = (\<lparr>Ready = True\<rparr>, ex_staged)"
    by blast
  from h t o p th [THEN conjunct2] show ?thesis by blast
qed

text \<open>
  C7.  Commit of a transaction id that is not pending answers \<open>success = false\<close> with the
  error "transaction not found" and changes nothing.  Commit of a staged id whose apply to
  the engine fails answers \<open>success = false\<close> with the engine's error and keeps the pending
  map as it was.  Commit of a staged id whose apply returns no error answers
  \<open>success = true\<close> and removes the id from the pending map.
\<close>

theorem Commit_outcomes:
  "(pending s t = None \<longrightarrow>
      Server_Commit s t = (\<lparr>Success = False, ErrorText = ''transaction not found''\<rparr>, s)) \<and>
   (\<forall>txn err st. pending s t = Some txn \<and> apply_txn (storage s) txn = (Some err, st) \<longrightarrow>
      fst (Server_Commit s t) = \<lparr>Success = False, ErrorText = Error err\<rparr> \<and>
      pending (snd (Server_Commit s t)) = pending s) \<and>
   (\<forall>txn st. pending s t = Some txn \<and> apply_txn (storage s) txn = (None, st) \<longrightarrow>
      fst (Server_Commit s t) = \<lparr>Success = True, ErrorText = []\<rparr> \<and>
      pending (snd (Server_Commit s t)) = (pending s)(t := None) \<and>
      storage (snd (Server_Commit s t)) = st)"
  by (simp add: Server_Commit_def)

theorem Commit_outcomes_witness:
  "pending ex_server ''txn-1-1'' = None \<and>
   Server_Commit ex_server ''txn-1-1'' =
     (\<lparr>Success = False, ErrorText = ''transaction not found''\<rparr>, ex_server) \<and>
   pending ex_staged_bad ''txn-1-2'' =
     Some \<lparr>Operation = OperationType_PUT, Collection = ''default'', Key = [], Value = ''2''\<rparr> \<and>
   apply_txn (storage ex_staged_bad)
     \<lparr>Operation = OperationType_PUT, Collection = ''default'', Key = [], Value = ''2''\<rparr> =
     (Some ErrInvalidKey, ex_store) \<and>
   fst (Server_Commit ex_staged_bad ''txn-1-2'') = \<lparr>Success = False, ErrorText = ''invalid key''\<rparr> \<and>
   pending (snd (Server_Commit ex_staged_bad ''txn-1-2'')) ''txn-1-2'' \<noteq> None \<and>
   pending ex_staged ''txn-1-1'' =
     Some \<lparr>Operation = OperationType_PUT, Collection = ''default'', Key = ''a'', Value = ''1''\<rparr> \<and>
   fst (Server_Commit ex_staged ''txn-1-1'') = \<lparr>Success = True, ErrorText = []\<rparr> \<and>
   pending (snd (Server_Commit ex_staged ''txn-1-1'')) ''txn-1-1'' = None \<and>
   entries (db (storage (snd (Server_Commit ex_staged ''txn-1-1'')))) ''default:a'' = Some ''1''"
proof -
  have a: "pending ex_server ''txn-1-1'' = None"
    by (simp add: ex_server_def NewServer_def)
  have b: "pending ex_staged_bad ''txn-1-2'' =
     Some \<lparr>Operation = OperationType_PUT, Collection = ''default'', Key = [], Value = ''2''\<rparr>"
    by (simp add: ex_staged_bad_pending)
  have b': "apply_txn (storage ex_staged_bad)
     \<lparr>Operation = OperationType_PUT, Collection = ''default'', Key = [], Value = ''2''\<rparr> =
     (Some ErrInvalidKey, ex_store)"
    by (simp add: ex_staged_bad_storage apply_txn_def LevelDBStore_PutDirect_def)
  have c: "pending ex_staged ''txn-1-1'' =
     Some \<lparr>Operation = OperationType_PUT, Collection = ''default'', Key = ''a'', Value = ''1''\<rparr>"
    by (simp add: ex_staged_pending)
  have c': "apply_txn (storage ex_staged)
     \<lparr>Operation = OperationType_PUT, Collection = ''default'', Key = ''a'', Value = ''1''\<rparr> =
     (None, \<lparr>db = \<lparr>entries = [''default:a'' \<mapsto> ''1''], closed = False\<rparr>\<rparr>)"
    by (simp add: ex_staged_storage apply_txn_def LevelDBStore_PutDirect_def db_Put_def
        LevelDBStore_makeKey_def ex_store_def)
  from Commit_outcomes [of ex_server "''txn-1-1''"] a
  have 1: "Server_Commit ex_server ''txn-1-1'' =
     (\<lparr>Success = False, ErrorText = ''transaction not found''\<rparr>, ex_server)"
    by blast
  from Commit_outcomes [of ex_staged_bad "''txn-1-2''"] b b'
  have 2: "fst (Server_Commit ex_staged_bad ''txn-1-2'') = \<lparr>Success = False, ErrorText = Error ErrInvalidKey\<rparr> \<and>
      pending (snd (Server_Commit ex_staged_bad ''txn-1-2'')) = pending ex_staged_bad"
    by blast
  from Commit_outcomes [of ex_staged "''txn-1-1''"] c c'
  have 3: "fst (Server_Commit ex_staged ''txn-1-1'') = \<lparr>Success = True, ErrorText = []\<rparr> \<and>
      pending (snd (Server_Commit ex_staged ''txn-1-1'')) = (pending ex_staged)(''txn-1-1'' := None) \<and>
      storage (snd (Server_Commit ex_staged ''txn-1-1'')) =
        \<lparr>db = \<lparr>entries = [''default:a'' \<mapsto> ''1''], closed = False\<rparr>\<rparr>"
    by blast
  from a b b' c 1 2 3 show ?thesis by simp
qed

section \<open>The local engine adapter\<close>

text \<open>
  C10.  Each of the five operations of the local engine adapter, called with an empty key,
  returns \<open>ErrInvalidKey\<close> and the store as it was, whatever the state of the database (open
  or closed, key present or not); \<open>Get\<close> of an empty key is \<open>ErrInvalidKey\<close>, not
  \<open>ErrKeyNotFound\<close>.
\<close>

theorem empty_key_is_invalid:
  "LevelDBStore_Put marshal s collection [] v = (Some ErrInvalidKey, s) \<and>
   LevelDBStore_PutDirect s collection [] b = (Some ErrInvalidKey, s) \<and>
   LevelDBStore_Get unmarshal s collection [] = Inl ErrInvalidKey \<and>
   LevelDBStore_Get unmarshal s collection [] \<noteq> Inl ErrKeyNotFound \<and>
   LevelDBStore_Delete s collection [] = (Some ErrInvalidKey, s) \<and>
   LevelDBStore_DeleteDirect s collection [] = (Some ErrInvalidKey, s)"
  by (simp add: LevelDBStore_Put_def LevelDBStore_PutDirect_def LevelDBStore_Get_def
      LevelDBStore_Delete_def LevelDBStore_DeleteDirect_def)

section \<open>The coordinator\<close>

lemma Client_Prepare_ready:
  "responded_ready req c \<Longrightarrow> Client_Prepare c req = (True, None)"
  by (auto simp: responded_ready_def Client_Prepare_def split: sum.splits)

lemma Client_Prepare_not_ready:
  "\<not> responded_ready req c \<Longrightarrow>
     (\<exists>e. Client_Prepare c req = (False, Some e)) \<or> Client_Prepare c req = (False, None)"
  by (auto simp: responded_ready_def Client_Prepare_def split: sum.splits)

lemma collect_prepare_eq:
  "\<exists>es. collect_prepare (map (\<lambda>c. (c, Client_Prepare c req)) cs) (ar, pc, pe) =
     (ar \<and> list_all (responded_ready req) cs, pc @ filter (responded_ready req) cs, pe @ es)"
proof (induction cs arbitrary: ar pc pe)
  case Nil
  then show ?case by simp
next
  case (Cons c cs)
  show ?case
  proof (cases "responded_ready req c")
    case True
    from Cons.IH [of ar "pc @ [c]" pe] obtain es where
      "collect_prepare (map (\<lambda>c. (c, Client_Prepare c req)) cs) (ar, pc @ [c], pe) =
         (ar \<and> list_all (responded_ready req) cs, (pc @ [c]) @ filter (responded_ready req) cs, pe @ es)"
      by blast
    with True show ?thesis by (simp add: Client_Prepare_ready)
  next
    case False
    from Client_Prepare_not_ready [OF False] show ?thesis
    proof
      assume "\<exists>e. Client_Prepare c req = (False, Some e)"
      then obtain e where e: "Client_Prepare c req = (False, Some e)" ..
      from Cons.IH [of False pc "pe @ [e]"] obtain es where
        "collect_prepare (map (\<lambda>c. (c, Client_Prepare c req)) cs) (False, pc, pe @ [e]) =
           (False \<and> list_all (responded_ready req) cs, pc @ filter (responded_ready req) cs, (pe @ [e]) @ es)"
        by blast
      with False e show ?thesis by simp
    next
      assume e: "Client_Prepare c req = (False, None)"
      from Cons.IH [of False pc pe] obtain es where
        "collect_prepare (map (\<lambda>c. (c, Client_Prepare c req)) cs) (False, pc, pe) =
           (False \<and> list_all (responded_ready req) cs, pc @ filter (responded_ready req) cs, pe @ es)"
        by blast
      with False e show ?thesis by simp
    qed
  qed
qed

lemma Client_Commit_None: "Client_Commit c txn = None \<longleftrightarrow> commit_succeeded txn c"
  by (auto simp: Client_Commit_def commit_succeeded_def split: sum.splits)

lemma collect_commit_eq:
  "collect_commit rs acc = acc @ List.map_filter id rs"
proof (induction rs arbitrary: acc)
  case Nil
  then show ?case by simp
next
  case (Cons r rs)
  then show ?case by (cases r) simp_all
qed

lemma map_filter_id_Nil: "List.map_filter id rs = [] \<longleftrightarrow> (\<forall>r\<in>set rs. r = None)"
  by (induction rs) (auto split: option.splits)

lemma collect_commit_Nil:
  "collect_commit (map (\<lambda>c. Client_Commit c txn) cs) [] = [] \<longleftrightarrow> list_all (commit_succeeded txn) cs"
  by (simp add: collect_commit_eq map_filter_id_Nil list_all_iff Client_Commit_None)

lemma replicate2PC_prepare_failed:
  assumes ne: "clients m \<noteq> []"
    and nr: "\<not> list_all (responded_ready (prepare_request now m op collection key val)) (clients m)"
  shows "\<exists>msg. replicate2PC now m op collection key val =
     (Some (Errorf msg), m\<lparr>txnID := txnID m + 1, seq := seq m + 1\<rparr>,
      map (\<lambda>c. SentPrepare (addr c) (prepare_request now m op collection key val)) (clients m) @
      map (\<lambda>c. SentAbort (addr c) (TransactionId (prepare_request now m op collection key val)))
        (filter (responded_ready (prepare_request now m op collection key val)) (clients m)))
    \<and> (msg = ''2PC prepare rejected by one or more slaves'' \<or>
       (\<exists>e. msg = ''2PC prepare failed: '' @ Error e))"
proof -
  let ?req = "prepare_request now m op collection key val"
  obtain es where es: "collect_prepare (map (\<lambda>c. (c, Client_Prepare c ?req)) (clients m)) (True, [], []) =
     (True \<and> list_all (responded_ready ?req) (clients m), [] @ filter (responded_ready ?req) (clients m), [] @ es)"
    using collect_prepare_eq by blast
  show ?thesis
    using ne nr es
    by (auto simp add: replicate2PC_def generateTxnID_def nextSeq_def prepare_request_def Let_def abortAll_def)
qed

lemma replicate2PC_prepared:
  assumes ne: "clients m \<noteq> []"
    and nr: "list_all (responded_ready (prepare_request now m op collection key val)) (clients m)"
  shows "\<exists>res. replicate2PC now m op collection key val =
     (res, m\<lparr>txnID := txnID m + 1, seq := seq m + 1\<rparr>,
      map (\<lambda>c. SentPrepare (addr c) (prepare_request now m op collection key val)) (clients m) @
      map (\<lambda>c. SentCommit (addr c) (TransactionId (prepare_request now m op collection key val))) (clients m))
    \<and> (res = None \<longleftrightarrow> list_all (commit_succeeded (TransactionId (prepare_request now m op collection key val))) (clients m))
    \<and> (res \<noteq> None \<longrightarrow> (\<exists>e. res = Some (Errorf (''2PC commit partially failed: '' @ Error e))))"
proof -
  let ?req = "prepare_request now m op collection key val"
  obtain es where es: "collect_prepare (map (\<lambda>c. (c, Client_Prepare c ?req)) (clients m)) (True, [], []) =
     (True \<and> list_all (responded_ready ?req) (clients m), [] @ filter (responded_ready ?req) (clients m), [] @ es)"
    using collect_prepare_eq by blast
  have cc: "collect_commit (map (\<lambda>c. Client_Commit c (TransactionId ?req)) (clients m)) [] = [] \<longleftrightarrow>
     list_all (commit_succeeded (TransactionId ?req)) (clients m)"
    by (rule collect_commit_Nil)
  show ?thesis
    using ne nr es cc
    by (auto simp add: replicate2PC_def generateTxnID_def nextSeq_def prepare_request_def Let_def)
qed

text \<open>
  C3.  In a round where the prepare RPC of some participant fails in the transport or is
  answered with \<open>ready = false\<close>, the coordinator returns a prepare error, and the RPCs it sends
  are the Prepare to every participant followed by an Abort to the participants that
  responded ready, in their order, and to no other: no Commit is sent.
\<close>

theorem prepare_failure_aborts_ready_only:
  assumes "c \<in> set (clients m)"
    and "req = prepare_request now m op collection key val"
    and "\<not> responded_ready req c"
  shows "(fst (replicate2PC now m op collection key val) =
            Some (Errorf ''2PC prepare rejected by one or more slaves'') \<or>
          (\<exists>e. fst (replicate2PC now m op collection key val) =
            Some (Errorf (''2PC prepare failed: '' @ Error e)))) \<and>
         snd (snd (replicate2PC now m op collection key val)) =
           map (\<lambda>c. SentPrepare (addr c) req) (clients m) @
           map (\<lambda>c. SentAbort (addr c) (TransactionId req)) (filter (responded_ready req) (clients m)) \<and>
         (\<forall>a t. SentCommit a t \<notin> set (snd (snd (replicate2PC now m op collection key val))))"
proof -
  from assms have ne: "clients m \<noteq> []" by auto
  from assms have nr: "\<not> list_all (responded_ready (prepare_request now m op collection key val)) (clients m)"
    by (auto simp: list_all_iff)
  from replicate2PC_prepare_failed [OF ne nr] obtain msg where
    "replicate2PC now m op collection key val =
     (Some (Errorf msg), m\<lparr>txnID := txnID m + 1, seq := seq m + 1\<rparr>,
      map (\<lambda>c. SentPrepare (addr c) req) (clients m) @
      map (\<lambda>c. SentAbort (addr c) (TransactionId req)) (filter (responded_ready req) (clients m)))"
    and "msg = ''2PC prepare rejected by one or more slaves'' \<or>
       (\<exists>e. msg = ''2PC prepare failed: '' @ Error e)"
    using assms(2) by blast
  then show ?thesis by auto
qed

theorem prepare_failure_aborts_ready_only_witness:
  "\<lparr>addr = ''r2:50051'', client = ex_refusing_stub\<rparr> \<in> set (clients ex_manager_refused) \<and>
   \<not> responded_ready (prepare_request 1 ex_manager_refused OperationType_PUT ''default'' ''x'' ''1'')
       \<lparr>addr = ''r2:50051'', client = ex_refusing_stub\<rparr> \<and>
   fst (replicate2PC 1 ex_manager_refused OperationType_PUT ''default'' ''x'' ''1'') \<noteq> None \<and>
   snd (snd (replicate2PC 1 ex_manager_refused OperationType_PUT ''default'' ''x'' ''1'')) =
     [SentPrepare ''r1:50051'' (prepare_request 1 ex_manager_refused OperationType_PUT ''default'' ''x'' ''1''),
      SentPrepare ''r2:50051'' (prepare_request 1 ex_manager_refused OperationType_PUT ''default'' ''x'' ''1''),
      SentPrepare ''r3:50051'' (prepare_request 1 ex_manager_refused OperationType_PUT ''default'' ''x'' ''1''),
      SentAbort ''r1:50051'' (TransactionId (prepare_request 1 ex_manager_refused OperationType_PUT ''default'' ''x'' ''1''))]"
proof -
  have a: "\<lparr>addr = ''r2:50051'', client = ex_refusing_stub\<rparr> \<in> set (clients ex_manager_refused)"
    by (simp add: ex_manager_refused_def)
  have b: "\<not> responded_ready (prepare_request 1 ex_manager_refused OperationType_PUT ''default'' ''x'' ''1'')
       \<lparr>addr = ''r2:50051'', client = ex_refusing_stub\<rparr>"
    by (simp add: responded_ready_def ex_refusing_stub_def)
  note th = prepare_failure_aborts_ready_only [OF a refl b]
  have c: "fst (replicate2PC 1 ex_manager_refused OperationType_PUT ''default'' ''x'' ''1'') \<noteq> None"
    using th [THEN conjunct1] by auto
  have f: "filter (responded_ready (prepare_request 1 ex_manager_refused OperationType_PUT ''default'' ''x'' ''1''))
             (clients ex_manager_refused) = [\<lparr>addr = ''r1:50051'', client = ex_ready_stub\<rparr>]"
    by (simp add: ex_manager_refused_def responded_ready_def ex_refusing_stub_def
        ex_ready_stub_def ex_down_stub_def)
  have d: "snd (snd (replicate2PC 1 ex_manager_refused OperationType_PUT ''default'' ''x'' ''1'')) =
     [SentPrepare ''r1:50051'' (prepare_request 1 ex_manager_refused OperationType_PUT ''default'' ''x'' ''1''),
      SentPrepare ''r2:50051'' (prepare_request 1 ex_manager_refused OperationType_PUT ''default'' ''x'' ''1''),
      SentPrepare ''r3:50051'' (prepare_request 1 ex_manager_refused OperationType_PUT ''default'' ''x'' ''1''),
      SentAbort ''r1:50051'' (TransactionId (prepare_request 1 ex_manager_refused OperationType_PUT ''default'' ''x'' ''1''))]"
    unfolding th [THEN conjunct2, THEN conjunct1] f
    by (simp add: ex_manager_refused_def)
  from a b c d show ?thesis by blast
qed

section \<open>The replicated store\<close>

lemma replicate2PC_cases:
  assumes ne: "clients m \<noteq> []"
  shows "\<exists>res sent. replicate2PC now m op collection key val =
           (res, m\<lparr>txnID := txnID m + 1, seq := seq m + 1\<rparr>, sent) \<and>
         (res = None \<longleftrightarrow> round_prepared now m op collection key val \<and>
                          round_committed now m op collection key val) \<and>
         (round_prepared now m op collection key val \<and> res \<noteq> None \<longrightarrow>
            (\<exists>e. res = Some (Errorf (''2PC commit partially failed: '' @ Error e))))"
proof (cases "round_prepared now m op collection key val")
  case True
  then have p: "list_all (responded_ready (prepare_request now m op collection key val)) (clients m)"
    by (simp add: round_prepared_def)
  from replicate2PC_prepared [OF ne p] True show ?thesis
    unfolding round_committed_def by blast
next
  case False
  then have p: "\<not> list_all (responded_ready (prepare_request now m op collection key val)) (clients m)"
    by (simp add: round_prepared_def)
  from replicate2PC_prepare_failed [OF ne p] False show ?thesis
    by auto
qed

lemma ReplicatedStore_Put_master:
  assumes "manager s = Some m" and "clients m \<noteq> []" and "\<not> IsSlave (config s)"
    and "marshal v = Inr data"
    and "replicate2PC now m OperationType_PUT collection key data = (res, m', sent)"
  shows "ReplicatedStore_Put marshal now s collection key v =
     (case res of
        Some err \<Rightarrow> (Some (ErrorfW ''replication failed: '' err), s\<lparr>manager := Some m'\<rparr>, sent)
      | None \<Rightarrow>
          (case LevelDBStore_Put marshal (store s) collection key v of
             (Some err, st) \<Rightarrow>
               (Some (ErrorfW ''local write failed after replication (inconsistency possible): '' err),
                s\<lparr>store := st, manager := Some m'\<rparr>, sent)
           | (None, st) \<Rightarrow> (None, s\<lparr>store := st, manager := Some m'\<rparr>, sent)))"
  using assms
  by (cases res) (simp_all add: ReplicatedStore_Put_def SlaveCount_def ReplicatePut_def)

lemma ReplicatedStore_Delete_master:
  assumes "manager s = Some m" and "clients m \<noteq> []" and "\<not> IsSlave (config s)"
    and "LevelDBStore_Get unmarshal (store s) collection key = Inr x"
    and "replicate2PC now m OperationType_DELETE collection key [] = (res, m', sent)"
  shows "ReplicatedStore_Delete unmarshal now s collection key =
     (case res of
        Some err \<Rightarrow> (Some (ErrorfW ''replication failed: '' err), s\<lparr>manager := Some m'\<rparr>, sent)
      | None \<Rightarrow>
          (case LevelDBStore_Delete (store s) collection key of
             (Some err, st) \<Rightarrow>
               (Some (ErrorfW ''local delete failed after replication (inconsistency possible): '' err),
                s\<lparr>store := st, manager := Some m'\<rparr>, sent)
           | (None, st) \<Rightarrow> (None, s\<lparr>store := st, manager := Some m'\<rparr>, sent)))"
  using assms
  by (cases res) (simp_all add: ReplicatedStore_Delete_def SlaveCount_def ReplicateDelete_def)

lemma ReplicatedStore_Delete_Get_failed:
  assumes "\<not> IsSlave (config s)"
    and "LevelDBStore_Get unmarshal (store s) collection key = Inl err"
  shows "ReplicatedStore_Delete unmarshal now s collection key = (Some err, s, [])"
  using assms by (simp add: ReplicatedStore_Delete_def)

lemma Put_master_outcome:
  assumes "manager s = Some m" and "clients m \<noteq> []" and "\<not> IsSlave (config s)"
    and "marshal v = Inr data"
  shows "(round_prepared now m OperationType_PUT collection key data \<and>
          \<not> round_committed now m OperationType_PUT collection key data \<longrightarrow>
            (\<exists>e. fst (ReplicatedStore_Put marshal now s collection key v) =
               Some (ErrorfW ''replication failed: ''
                 (Errorf (''2PC commit partially failed: '' @ Error e)))) \<and>
            store (fst (snd (ReplicatedStore_Put marshal now s collection key v))) = store s) \<and>
         (store (fst (snd (ReplicatedStore_Put marshal now s collection key v))) \<noteq> store s \<or>
          fst (ReplicatedStore_Put marshal now s collection key v) = None \<longrightarrow>
            round_committed now m OperationType_PUT collection key data)"
proof -
  from replicate2PC_cases [OF assms(2), of now OperationType_PUT collection key data]
  obtain res sent where
    r: "replicate2PC now m OperationType_PUT collection key data =
           (res, m\<lparr>txnID := txnID m + 1, seq := seq m + 1\<rparr>, sent)"
    and n: "res = None \<longleftrightarrow> round_prepared now m OperationType_PUT collection key data \<and>
                          round_committed now m OperationType_PUT collection key data"
    and e: "round_prepared now m OperationType_PUT collection key data \<and> res \<noteq> None \<longrightarrow>
            (\<exists>e. res = Some (Errorf (''2PC commit partially failed: '' @ Error e)))"
    by blast
  note p = ReplicatedStore_Put_master [where marshal = marshal and v = v, OF assms r]
  show ?thesis
  proof (cases res)
    case None
    with n p show ?thesis
      by (auto split: prod.splits option.splits)
  next
    case (Some err)
    with n e p show ?thesis by auto
  qed
qed

lemma Delete_master_outcome:
  assumes "manager s = Some m" and "clients m \<noteq> []" and "\<not> IsSlave (config s)"
  shows "(round_prepared now m OperationType_DELETE collection key [] \<and>
          \<not> round_committed now m OperationType_DELETE collection key [] \<longrightarrow>
            fst (ReplicatedStore_Delete unmarshal now s collection key) \<noteq> None \<and>
            (\<forall>x. LevelDBStore_Get unmarshal (store s) collection key = Inr x \<longrightarrow>
               (\<exists>e. fst (ReplicatedStore_Delete unmarshal now s collection key) =
                  Some (ErrorfW ''replication failed: ''
                    (Errorf (''2PC commit partially failed: '' @ Error e))))) \<and>
            store (fst (snd (ReplicatedStore_Delete unmarshal now s collection key))) = store s) \<and>
         (store (fst (snd (ReplicatedStore_Delete unmarshal now s collection key))) \<noteq> store s \<or>
          fst (ReplicatedStore_Delete unmarshal now s collection key) = None \<longrightarrow>
            round_committed now m OperationType_DELETE collection key [])"
proof (cases "LevelDBStore_Get unmarshal (store s) collection key")
  case (Inl err)
  from ReplicatedStore_Delete_Get_failed [where unmarshal = unmarshal, OF assms(3) Inl, of now] Inl
  show ?thesis by simp
next
  case (Inr x)
  from replicate2PC_cases [OF assms(2), of now OperationType_DELETE collection key "[]"]
  obtain res sent where
    r: "replicate2PC now m OperationType_DELETE collection key [] =
           (res, m\<lparr>txnID := txnID m + 1, seq := seq m + 1\<rparr>, sent)"
    and n: "res = None \<longleftrightarrow> round_prepared now m OperationType_DELETE collection key [] \<and>
                          round_committed now m OperationType_DELETE collection key []"
    and e: "round_prepared now m OperationType_DELETE collection key [] \<and> res \<noteq> None \<longrightarrow>
            (\<exists>e. res = Some (Errorf (''2PC commit partially failed: '' @ Error e)))"
    by blast
  note p = ReplicatedStore_Delete_master [where unmarshal = unmarshal, OF assms Inr r]
  show ?thesis
  proof (cases res)
    case None
    with n p show ?thesis
      by (auto split: prod.splits option.splits)
  next
    case (Some err)
    with n e p Inr show ?thesis by auto
  qed
qed

lemma ex_partial_prepared:
  "round_prepared now ex_manager_partial op collection key val"
  by (simp add: round_prepared_def ex_manager_partial_def responded_ready_def ex_ready_stub_def
      ex_forgetful_stub_def)

lemma ex_partial_not_committed:
  "\<not> round_committed now ex_manager_partial op collection key val"
  by (simp add: round_committed_def ex_manager_partial_def commit_succeeded_def ex_ready_stub_def
      ex_forgetful_stub_def)

lemma ex_master_partial_not_slave: "\<not> IsSlave (config ex_master_partial)"
  by (simp add: ex_master_partial_def ex_config_master_def IsSlave_def RoleMaster_def RoleSlave_def)

text \<open>
  C4.  On a master whose manager has at least one client: a round in which every participant
  prepared and some commit RPC failed or was answered with \<open>success = false\<close> makes the
  coordinator return the partial-commit error; Put and Delete of the replicated store then
  return an error and leave the local store as it was.  The local store changes, or the call
  returns without error, only when every commit of the round succeeded.
\<close>

theorem commit_failure_blocks_local_apply:
  assumes "manager s = Some m" and "clients m \<noteq> []" and "\<not> IsSlave (config s)"
    and "marshal v = Inr data"
  shows "(round_prepared now m op collection key val \<and>
          \<not> round_committed now m op collection key val \<longrightarrow>
            (\<exists>e. fst (replicate2PC now m op collection key val) =
               Some (Errorf (''2PC commit partially failed: '' @ Error e)))) \<and>
         (round_prepared now m OperationType_PUT collection key data \<and>
          \<not> round_committed now m OperationType_PUT collection key data \<longrightarrow>
            (\<exists>e. fst (ReplicatedStore_Put marshal now s collection key v) =
               Some (ErrorfW ''replication failed: ''
                 (Errorf (''2PC commit partially failed: '' @ Error e)))) \<and>
            store (fst (snd (ReplicatedStore_Put marshal now s collection key v))) = store s) \<and>
         (store (fst (snd (ReplicatedStore_Put marshal now s collection key v))) \<noteq> store s \<or>
          fst (ReplicatedStore_Put marshal now s collection key v) = None \<longrightarrow>
            round_committed now m OperationType_PUT collection key data) \<and>
         (round_prepared now m OperationType_DELETE collection key [] \<and>
          \<not> round_committed now m OperationType_DELETE collection key [] \<longrightarrow>
            fst (ReplicatedStore_Delete unmarshal now s collection key) \<noteq> None \<and>
            (\<forall>x. LevelDBStore_Get unmarshal (store s) collection key = Inr x \<longrightarrow>
               (\<exists>e. fst (ReplicatedStore_Delete unmarshal now s collection key) =
                  Some (ErrorfW ''replication failed: ''
                    (Errorf (''2PC commit partially failed: '' @ Error e))))) \<and>
            store (fst (snd (ReplicatedStore_Delete unmarshal now s collection key))) = store s) \<and>
         (store (fst (snd (ReplicatedStore_Delete unmarshal now s collection key))) \<noteq> store s \<or>
          fst (ReplicatedStore_Delete unmarshal now s collection key) = None \<longrightarrow>
            round_committed now m OperationType_DELETE collection key [])"
proof -
  from replicate2PC_cases [OF assms(2), of now op collection key val]
  have a: "round_prepared now m op collection key val \<and>
          \<not> round_committed now m op collection key val \<longrightarrow>
            (\<exists>e. fst (replicate2PC now m op collection key val) =
               Some (Errorf (''2PC commit partially failed: '' @ Error e)))"
    by auto
  note b = Put_master_outcome [where marshal = marshal and v = v, OF assms, of now collection key]
  note c = Delete_master_outcome [where unmarshal = unmarshal, OF assms(1-3), of now collection key]
  from a b c show ?thesis by blast
qed

theorem commit_failure_blocks_local_apply_witness:
  "manager ex_master_partial = Some ex_manager_partial \<and>
   clients ex_manager_partial \<noteq> [] \<and>
   \<not> IsSlave (config ex_master_partial) \<and>
   ex_marshal ''2'' = Inr ''2'' \<and>
   round_prepared 1 ex_manager_partial OperationType_PUT ''default'' ''b'' ''2'' \<and>
   \<not> round_committed 1 ex_manager_partial OperationType_PUT ''default'' ''b'' ''2'' \<and>
   round_prepared 1 ex_manager_partial OperationType_DELETE ''default'' ''a'' [] \<and>
   \<not> round_committed 1 ex_manager_partial OperationType_DELETE ''default'' ''a'' [] \<and>
   fst (replicate2PC 1 ex_manager_partial OperationType_PUT ''default'' ''b'' ''2'') \<noteq> None \<and>
   fst (ReplicatedStore_Put ex_marshal 1 ex_master_partial ''default'' ''b'' ''2'') \<noteq> None \<and>
   store (fst (snd (ReplicatedStore_Put ex_marshal 1 ex_master_partial ''default'' ''b'' ''2''))) =
     ex_store_a \<and>
   fst (ReplicatedStore_Delete ex_unmarshal 1 ex_master_partial ''default'' ''a'') \<noteq> None \<and>
   store (fst (snd (ReplicatedStore_Delete ex_unmarshal 1 ex_master_partial ''default'' ''a''))) =
     ex_store_a"
proof -
  have m: "manager ex_master_partial = Some ex_manager_partial"
    by (simp add: ex_master_partial_def)
  have ne: "clients ex_manager_partial \<noteq> []"
    by (simp add: ex_manager_partial_def)
  have ma: "ex_marshal ''2'' = Inr ''2''"
    by (simp add: ex_marshal_def)
  have st: "store ex_master_partial = ex_store_a"
    by (simp add: ex_master_partial_def)
  note th = commit_failure_blocks_local_apply [where marshal = ex_marshal and v = "''2''"
      and unmarshal = ex_unmarshal,
      OF m ne ex_master_partial_not_slave ma, of 1 OperationType_PUT "''default''" "''b''" "''2''"]
  note th' = commit_failure_blocks_local_apply [where marshal = ex_marshal and v = "''2''"
      and unmarshal = ex_unmarshal,
      OF m ne ex_master_partial_not_slave ma, of 1 OperationType_PUT "''default''" "''a''" "''2''"]
  from th ex_partial_prepared ex_partial_not_committed
  have 1: "fst (replicate2PC 1 ex_manager_partial OperationType_PUT ''default'' ''b'' ''2'') \<noteq> None"
    by auto
  from th ex_partial_prepared ex_partial_not_committed
  have 2: "fst (ReplicatedStore_Put ex_marshal 1 ex_master_partial ''default'' ''b'' ''2'') \<noteq> None \<and>
     store (fst (snd (ReplicatedStore_Put ex_marshal 1 ex_master_partial ''default'' ''b'' ''2''))) =
       store ex_master_partial"
    by auto
  from th' ex_partial_prepared ex_partial_not_committed
  have 3: "fst (ReplicatedStore_Delete ex_unmarshal 1 ex_master_partial ''default'' ''a'') \<noteq> None \<and>
     store (fst (snd (ReplicatedStore_Delete ex_unmarshal 1 ex_master_partial ''default'' ''a''))) =
       store ex_master_partial"
    by blast
  from m ne ex_master_partial_not_slave ma ex_partial_prepared ex_partial_not_committed 1 2 3 st
  show ?thesis by simp
qed

text \<open>
  C5.  On a node whose role is slave, Put and Delete of the replicated store return the
  "not allowed on slave nodes" error, send no RPC and return the store, local engine and
  manager included, as it was.
\<close>

theorem replica_rejects_writes:
  "Role (config s) = RoleSlave \<Longrightarrow>
     ReplicatedStore_Put marshal now s collection key v =
       (Some (Errorf ''writes not allowed on slave nodes, send request to master''), s, []) \<and>
     ReplicatedStore_Delete unmarshal now s collection key =
       (Some (Errorf ''deletes not allowed on slave nodes, send request to master''), s, [])"
  by (simp add: ReplicatedStore_Put_def ReplicatedStore_Delete_def IsSlave_def)

theorem replica_rejects_writes_witness:
  "Role (config ex_replica) = RoleSlave \<and>
   ReplicatedStore_Put ex_marshal 1 ex_replica ''default'' ''z'' ''3'' =
     (Some (Errorf ''writes not allowed on slave nodes, send request to master''), ex_replica, []) \<and>
   ReplicatedStore_Delete ex_unmarshal 1 ex_replica ''default'' ''a'' =
     (Some (Errorf ''deletes not allowed on slave nodes, send request to master''), ex_replica, [])"
proof -
  have r: "Role (config ex_replica) = RoleSlave"
    by (simp add: ex_replica_def ex_config_slave_def)
  note p = replica_rejects_writes [OF r, where marshal = ex_marshal and now = 1
      and collection = "''default''" and key = "''z''" and v = "''3''"
      and unmarshal = ex_unmarshal, THEN conjunct1]
  note d = replica_rejects_writes [OF r, where unmarshal = ex_unmarshal and now = 1
      and collection = "''default''" and key = "''a''"
      and marshal = ex_marshal and v = "''3''", THEN conjunct2]
  from r p d show ?thesis by blast
qed

text \<open>
  C6.  On a master, Delete of a key that is absent from the local engine returns
  \<open>ErrKeyNotFound\<close> before any round of 2PC starts: no RPC is sent, and the store, local
  engine and manager counters included, is as it was.  The key is one of the data model, a
  non-empty string, and the engine is open, so that it answers the read.
\<close>

theorem Delete_absent_key_no_replication:
  assumes "\<not> IsSlave (config s)"
    and "key \<noteq> []"
    and "\<not> closed (db (store s))"
    and "entries (db (store s)) (LevelDBStore_makeKey collection key) = None"
  shows "ReplicatedStore_Delete unmarshal now s collection key = (Some ErrKeyNotFound, s, [])"
  using assms
  by (simp add: ReplicatedStore_Delete_def LevelDBStore_Get_def db_Get_def)

theorem Delete_absent_key_no_replication_witness:
  "\<not> IsSlave (config ex_master_partial) \<and>
   ''missing'' \<noteq> [] \<and>
   \<not> closed (db (store ex_master_partial)) \<and>
   entries (db (store ex_master_partial)) (LevelDBStore_makeKey ''default'' ''missing'') = None \<and>
   manager ex_master_partial = Some ex_manager_partial \<and>
   clients ex_manager_partial \<noteq> [] \<and>
   ReplicatedStore_Delete ex_unmarshal 1 ex_master_partial ''default'' ''missing'' =
     (Some ErrKeyNotFound, ex_master_partial, [])"
proof -
  have k: "''missing'' \<noteq> []"
    by simp
  have c: "\<not> closed (db (store ex_master_partial))"
    by (simp add: ex_master_partial_def ex_store_a_def)
  have e: "entries (db (store ex_master_partial)) (LevelDBStore_makeKey ''default'' ''missing'') = None"
    by (simp add: ex_master_partial_def ex_store_a_def LevelDBStore_makeKey_def)
  have m: "manager ex_master_partial = Some ex_manager_partial"
    by (simp add: ex_master_partial_def)
  have n: "clients ex_manager_partial \<noteq> []"
    by (simp add: ex_manager_partial_def)
  note th = Delete_absent_key_no_replication [OF ex_master_partial_not_slave k c e,
      where unmarshal = ex_unmarshal and now = 1]
  from ex_master_partial_not_slave k c e m n th show ?thesis by blast
qed

section \<open>The sequence counter\<close>

lemma length_nextSeq_times: "length (nextSeq_times n m) = n"
  by (induction n arbitrary: m) (simp_all add: nextSeq_def)

lemma nth_nextSeq_times:
  "i < n \<Longrightarrow> nextSeq_times n m ! i = seq m + of_nat (Suc i)"
proof (induction n arbitrary: m i)
  case 0
  then show ?case by simp
next
  case (Suc n)
  show ?case
  proof (cases i)
    case 0
    then show ?thesis by (simp add: nextSeq_def)
  next
    case (Suc j)
    with Suc.prems have "j < n" by simp
    from Suc.IH [OF this, of "m\<lparr>seq := seq m + 1\<rparr>"] Suc show ?thesis
      by (simp add: nextSeq_def add.assoc)
  qed
qed

lemma unat_add_of_nat:
  fixes x :: "64 word"
  assumes "unat x + k < 2 ^ 64"
  shows "unat (x + of_nat k) = unat x + k"
proof -
  from assms have k: "k < 2 ^ 64" by simp
  then have u: "unat (of_nat k :: 64 word) = k"
    by (simp add: unat_of_nat)
  with assms have "unat x + unat (of_nat k :: 64 word) < 2 ^ LENGTH(64)" by simp
  then have "unat (x + of_nat k) = unat x + unat (of_nat k :: 64 word)"
    by (simp only: unat_add_lem)
  with u show ?thesis by simp
qed

lemma nextSeq_times_increasing:
  assumes b: "unat (seq m) + n < 2 ^ 64" and ij: "i < j" and jn: "j < n"
  shows "nextSeq_times n m ! i < nextSeq_times n m ! j"
proof -
  from b ij jn have bi: "unat (seq m) + Suc i < 2 ^ 64" and bj: "unat (seq m) + Suc j < 2 ^ 64"
    by simp_all
  from ij jn have "i < n" by simp
  then have "unat (nextSeq_times n m ! i) = unat (seq m) + Suc i"
    using unat_add_of_nat [OF bi] by (simp only: nth_nextSeq_times)
  moreover have "unat (nextSeq_times n m ! j) = unat (seq m) + Suc j"
    using unat_add_of_nat [OF bj] jn by (simp only: nth_nextSeq_times)
  ultimately show ?thesis using ij by (simp add: word_less_nat_alt)
qed

lemma nextSeq_times_sorted:
  assumes "unat (seq m) + n < 2 ^ 64"
  shows "sorted_wrt (<) (nextSeq_times n m)"
  using nextSeq_times_increasing [OF assms]
  by (simp add: sorted_wrt_iff_nth_less length_nextSeq_times)

lemma nextSeq_times_distinct:
  assumes "unat (seq m) + n < 2 ^ 64"
  shows "distinct (nextSeq_times n m)"
proof -
  have "nextSeq_times n m ! i \<noteq> nextSeq_times n m ! j" if "i < n" and "j < n" and "i \<noteq> j" for i j
  proof (cases "i < j")
    case True
    from nextSeq_times_increasing [OF assms True that(2)] show ?thesis by simp
  next
    case False
    with that have "j < i" by simp
    from nextSeq_times_increasing [OF assms this that(1)] show ?thesis by simp
  qed
  then show ?thesis by (simp add: distinct_conv_nth length_nextSeq_times)
qed

lemma wire_seqs_append: "wire_seqs (xs @ ys) = wire_seqs xs @ wire_seqs ys"
  by (induction xs rule: wire_seqs.induct) simp_all

lemma wire_seqs_prepares: "wire_seqs (map (\<lambda>c. SentPrepare (addr c) req) cs) = replicate (length cs) (Sequence req)"
  by (induction cs) simp_all

lemma wire_seqs_commits: "wire_seqs (map (\<lambda>c. SentCommit (addr c) t) cs) = []"
  by (induction cs) simp_all

lemma wire_seqs_aborts: "wire_seqs (map (\<lambda>c. SentAbort (addr c) t) cs) = []"
  by (induction cs) simp_all

lemma replicate2PC_step:
  assumes ne: "clients m \<noteq> []"
  shows "\<exists>res sent. replicate2PC now m op collection key val =
           (res, m\<lparr>txnID := txnID m + 1, seq := seq m + 1\<rparr>, sent) \<and>
         wire_seqs sent = replicate (length (clients m)) (seq m + 1)"
proof (cases "list_all (responded_ready (prepare_request now m op collection key val)) (clients m)")
  case True
  from replicate2PC_prepared [OF ne True] obtain res where
    "replicate2PC now m op collection key val =
     (res, m\<lparr>txnID := txnID m + 1, seq := seq m + 1\<rparr>,
      map (\<lambda>c. SentPrepare (addr c) (prepare_request now m op collection key val)) (clients m) @
      map (\<lambda>c. SentCommit (addr c) (TransactionId (prepare_request now m op collection key val))) (clients m))"
    by blast
  then show ?thesis
    by (simp add: wire_seqs_append wire_seqs_prepares wire_seqs_commits prepare_request_def nextSeq_def)
next
  case False
  from replicate2PC_prepare_failed [OF ne False] obtain msg where
    "replicate2PC now m op collection key val =
     (Some (Errorf msg), m\<lparr>txnID := txnID m + 1, seq := seq m + 1\<rparr>,
      map (\<lambda>c. SentPrepare (addr c) (prepare_request now m op collection key val)) (clients m) @
      map (\<lambda>c. SentAbort (addr c) (TransactionId (prepare_request now m op collection key val)))
        (filter (responded_ready (prepare_request now m op collection key val)) (clients m)))"
    by blast
  then show ?thesis
    by (simp add: wire_seqs_append wire_seqs_prepares wire_seqs_aborts prepare_request_def nextSeq_def)
qed

lemma length_run_replicate: "length (run_replicate m calls) = length calls"
  by (induction m calls rule: run_replicate.induct) (simp_all split: prod.splits)

lemma run_replicate_wire_seqs:
  "clients m \<noteq> [] \<Longrightarrow> i < length calls \<Longrightarrow>
     wire_seqs (run_replicate m calls ! i) = replicate (length (clients m)) (seq m + of_nat (Suc i))"
proof (induction calls arbitrary: m i)
  case Nil
  then show ?case by simp
next
  case (Cons call calls)
  obtain now op collection key val where call: "call = (now, op, collection, key, val)"
    by (cases call) auto
  from replicate2PC_step [OF Cons.prems(1), of now op collection key val]
  obtain res sent where
    r: "replicate2PC now m op collection key val =
           (res, m\<lparr>txnID := txnID m + 1, seq := seq m + 1\<rparr>, sent)"
    and w: "wire_seqs sent = replicate (length (clients m)) (seq m + 1)"
    by blast
  show ?case
  proof (cases i)
    case 0
    with call r w show ?thesis by simp
  next
    case (Suc j)
    with Cons.prems have j: "j < length calls" by simp
    from Cons.prems(1) have ne: "clients (m\<lparr>txnID := txnID m + 1, seq := seq m + 1\<rparr>) \<noteq> []" by simp
    from Cons.IH [OF ne j] call r Suc show ?thesis
      by (simp add: add.assoc)
  qed
qed

text \<open>
  C8, as the code has it.  The numbers that \<open>nextSeq\<close> hands out in a row are pairwise distinct
  and strictly increasing as long as the unsigned 64-bit counter does not wrap around, and
  every Prepare of the i-th call of \<open>replicate2PC\<close> on a manager with at least one client
  carries the i-th of them.
\<close>

theorem sequence_numbers_strictly_increase:
  assumes "unat (seq m) + length calls < 2 ^ 64"
  shows "sorted_wrt (<) (nextSeq_times (length calls) m) \<and>
         distinct (nextSeq_times (length calls) m) \<and>
         (clients m \<noteq> [] \<longrightarrow>
            length (run_replicate m calls) = length calls \<and>
            (\<forall>i < length calls.
               wire_seqs (run_replicate m calls ! i) =
                 replicate (length (clients m)) (nextSeq_times (length calls) m ! i)))"
  using nextSeq_times_sorted [OF assms] nextSeq_times_distinct [OF assms]
  by (simp add: length_run_replicate run_replicate_wire_seqs nth_nextSeq_times)

theorem sequence_numbers_strictly_increase_witness:
  "unat (seq ex_manager_partial) + length ex_calls < 2 ^ 64 \<and>
   nextSeq_times (length ex_calls) ex_manager_partial = [1, 2] \<and>
   sorted_wrt (<) (nextSeq_times (length ex_calls) ex_manager_partial) \<and>
   distinct (nextSeq_times (length ex_calls) ex_manager_partial) \<and>
   clients ex_manager_partial \<noteq> [] \<and>
   wire_seqs (run_replicate ex_manager_partial ex_calls ! 0) = [1, 1] \<and>
   wire_seqs (run_replicate ex_manager_partial ex_calls ! 1) = [2, 2]"
proof -
  have h: "unat (seq ex_manager_partial) + length ex_calls < 2 ^ 64"
    by (simp add: ex_manager_partial_def ex_calls_def)
  have l: "length ex_calls = Suc (Suc 0)"
    by (simp add: ex_calls_def)
  have n: "nextSeq_times (length ex_calls) ex_manager_partial = [1, 2]"
    by (simp add: l nextSeq_def ex_manager_partial_def)
  have c: "clients ex_manager_partial \<noteq> []" and k: "length (clients ex_manager_partial) = Suc (Suc 0)"
    by (simp_all add: ex_manager_partial_def)
  note th = sequence_numbers_strictly_increase [OF h]
  from th c have w: "\<forall>i < length ex_calls.
       wire_seqs (run_replicate ex_manager_partial ex_calls ! i) =
         replicate (length (clients ex_manager_partial))
           (nextSeq_times (length ex_calls) ex_manager_partial ! i)"
    by blast
  from w l have "wire_seqs (run_replicate ex_manager_partial ex_calls ! 0) =
         replicate (length (clients ex_manager_partial))
           (nextSeq_times (length ex_calls) ex_manager_partial ! 0)"
    by simp
  then have w0: "wire_seqs (run_replicate ex_manager_partial ex_calls ! 0) = [1, 1]"
    by (simp add: n k)
  from w l have "wire_seqs (run_replicate ex_manager_partial ex_calls ! 1) =
         replicate (length (clients ex_manager_partial))
           (nextSeq_times (length ex_calls) ex_manager_partial ! 1)"
    by simp
  then have w1: "wire_seqs (run_replicate ex_manager_partial ex_calls ! 1) = [2, 2]"
    by (simp add: n k)
  from h n th c w0 w1 show ?thesis by blast
qed

text \<open>
  C8, as the claim states it, fails.  A manager whose counter stands at \<open>2^64 - 2\<close> hands out
  \<open>2^64 - 1\<close> and then \<open>0\<close>, and puts them on the wire in that order; and a call on a manager
  without clients returns before it takes a number.
\<close>

theorem sequence_counter_counterexample:
  "nextSeq_times 2 ex_manager_wrapping = [0xFFFFFFFFFFFFFFFF, 0] \<and>
   \<not> sorted_wrt (<) (nextSeq_times 2 ex_manager_wrapping) \<and>
   wire_seqs (run_replicate ex_manager_wrapping ex_calls ! 0) = [0xFFFFFFFFFFFFFFFF] \<and>
   wire_seqs (run_replicate ex_manager_wrapping ex_calls ! 1) = [0] \<and>
   clients ex_manager_alone = [] \<and>
   replicate2PC 1 ex_manager_alone OperationType_PUT ''default'' ''a'' ''1'' =
     (None, ex_manager_alone, [])"
proof -
  have "nextSeq_times (Suc (Suc 0)) ex_manager_wrapping = [0xFFFFFFFFFFFFFFFF, 0]"
    by (simp add: nextSeq_def ex_manager_wrapping_def)
  then have n: "nextSeq_times 2 ex_manager_wrapping = [0xFFFFFFFFFFFFFFFF, 0]"
    by (simp only: numeral_2_eq_2)
  have s: "\<not> sorted_wrt (<) (nextSeq_times 2 ex_manager_wrapping)"
    by (simp add: n)
  have c: "clients ex_manager_wrapping \<noteq> []" and k: "length (clients ex_manager_wrapping) = Suc 0"
    and q: "seq ex_manager_wrapping = 0xFFFFFFFFFFFFFFFE"
    by (simp_all add: ex_manager_wrapping_def)
  have l: "length ex_calls = Suc (Suc 0)"
    by (simp add: ex_calls_def)
  have w0: "wire_seqs (run_replicate ex_manager_wrapping ex_calls ! 0) = [0xFFFFFFFFFFFFFFFF]"
    using run_replicate_wire_seqs [OF c, of 0 ex_calls] by (simp add: l k q)
  have w1: "wire_seqs (run_replicate ex_manager_wrapping ex_calls ! 1) = [0]"
    using run_replicate_wire_seqs [OF c, of 1 ex_calls] by (simp add: l k q)
  have a: "clients ex_manager_alone = []"
    by (simp add: ex_manager_alone_def NewManager_def)
  have r: "replicate2PC 1 ex_manager_alone OperationType_PUT ''default'' ''a'' ''1'' =
     (None, ex_manager_alone, [])"
    by (simp add: replicate2PC_def a)
  from n s w0 w1 a r show ?thesis by blast
qed

end
